theory Spec2Isabelle
  imports Complex_Main "HOL-Library.Sublist" "HOL-Library.AList"
begin

section \<open>Errors\<close>

text \<open>
  Every \<^verbatim>\<open>throw\<close> of the sources and every rejection of an awaited promise is a value
  \<open>Inl e\<close> of a result type \<open>error + 'a\<close>.
  \<^item> \<open>DimensionMismatch\<close> is \<^verbatim>\<open>new Error('Vectors must have the same dimensions')\<close>
    (llm_query.js, line 25);
  \<^item> \<open>TypeError\<close> is what the JavaScript runtime throws when a property of
    \<^verbatim>\<open>undefined\<close> is read or a value that is no function is called;
  \<^item> \<open>Thrown msg\<close> is whatever an external collaborator (embedding provider, retriever,
    language model, vector store) throws.
\<close>

datatype error = DimensionMismatch | TypeError | Thrown string

section \<open>Numbers\<close>

text \<open>
  \<^verbatim>\<open>cosineSimilarity\<close> uses five operations of the JavaScript number type: the literal
  \<^verbatim>\<open>0\<close>, \<^verbatim>\<open>+\<close>, \<^verbatim>\<open>*\<close>, \<^verbatim>\<open>/\<close> and \<^verbatim>\<open>Math.sqrt\<close>. They are a parameter of the
  embedding, so that the one translation of the function can be read on exact real
  numbers (\<open>exact\<close>) and on IEEE 754 binary64 numbers (\<open>binary64\<close>), the number type
  of JavaScript.
\<close>

record 'n arith =
  num_zero :: 'n
  num_add :: "'n \<Rightarrow> 'n \<Rightarrow> 'n"
  num_mul :: "'n \<Rightarrow> 'n \<Rightarrow> 'n"
  num_div :: "'n \<Rightarrow> 'n \<Rightarrow> 'n"
  num_sqrt :: "'n \<Rightarrow> 'n"

definition exact :: "real arith" where
  "exact = \<lparr>num_zero = 0, num_add = (+), num_mul = (*), num_div = (/), num_sqrt = sqrt\<rparr>"

subsection \<open>IEEE 754 binary64, round to nearest, ties to even\<close>

text \<open>
  A finite binary64 number is the rational it denotes. Every operation computes the exact
  rational result and rounds it to the nearest number \<open>m * 2 ^ (e - 52)\<close> with
  \<open>m < 2 ^ 53\<close> and \<open>e \<ge> - 1022\<close> (gradual underflow included), a tie going to the even
  \<open>m\<close>. Infinities, NaN and the sign of zero are outside the model: it is the arithmetic
  of JavaScript wherever every intermediate magnitude stays below \<open>2 ^ 1024\<close>, no negative
  number reaches \<^verbatim>\<open>Math.sqrt\<close> and no division is by zero.
\<close>

function pow2n :: "int \<Rightarrow> rat" where
  "pow2n e = (if e \<le> 0 then 1 else 2 * pow2n (e - 1))"
  by pat_completeness auto
termination
  by (relation "measure nat") auto

definition pow2 :: "int \<Rightarrow> rat" where
  "pow2 e = (if 0 \<le> e then pow2n e else 1 / pow2n (- e))"

function bit_length :: "int \<Rightarrow> int" where
  "bit_length n = (if n \<le> 0 then 0 else 1 + bit_length (n div 2))"
  by pat_completeness auto
termination
  by (relation "measure nat") auto

definition ilog2_adjust :: "rat \<Rightarrow> int \<Rightarrow> int" where
  "ilog2_adjust x e = (if pow2 e \<le> x then e else e - 1)"

definition ilog2 :: "rat \<Rightarrow> int" where
  "ilog2 x = (case quotient_of x of (p, q) \<Rightarrow> ilog2_adjust x (bit_length p - bit_length q))"

definition nearest_even :: "rat \<Rightarrow> int \<Rightarrow> int" where
  "nearest_even n m =
     (if n - of_int m < 1 / 2 then m
      else if 1 / 2 < n - of_int m then m + 1
      else if even m then m else m + 1)"

definition quantize :: "rat \<Rightarrow> rat \<Rightarrow> rat" where
  "quantize q x = of_int (nearest_even (x / q) \<lfloor>x / q\<rfloor>) * q"

definition round64 :: "rat \<Rightarrow> rat" where
  "round64 x =
     (if x = 0 then 0
      else sgn x * quantize (pow2 (max (ilog2 \<bar>x\<bar>) (- 1022) - 52)) \<bar>x\<bar>)"

definition isqrt_step :: "int \<Rightarrow> int \<Rightarrow> int" where
  "isqrt_step n r = (if (r + 1) * (r + 1) \<le> n then r + 1 else r)"

function isqrt :: "int \<Rightarrow> int" where
  "isqrt n = (if n < 1 then 0 else isqrt_step n (2 * isqrt (n div 4)))"
  by pat_completeness auto
termination
  by (relation "measure nat") auto

definition round_sqrt :: "rat \<Rightarrow> int \<Rightarrow> int" where
  "round_sqrt y m =
     (if y < (of_int m + 1 / 2) * (of_int m + 1 / 2) then m
      else if (of_int m + 1 / 2) * (of_int m + 1 / 2) < y then m + 1
      else if even m then m else m + 1)"

definition sqrt_quantize :: "rat \<Rightarrow> rat \<Rightarrow> rat" where
  "sqrt_quantize q x = of_int (round_sqrt (x / (q * q)) (isqrt \<lfloor>x / (q * q)\<rfloor>)) * q"

definition sqrt64 :: "rat \<Rightarrow> rat" where
  "sqrt64 x = (if x \<le> 0 then 0 else sqrt_quantize (pow2 (ilog2 x div 2 - 52)) x)"

definition binary64 :: "rat arith" where
  "binary64 =
     \<lparr>num_zero = 0,
      num_add = (\<lambda>a b. round64 (a + b)),
      num_mul = (\<lambda>a b. round64 (a * b)),
      num_div = (\<lambda>a b. round64 (a / b)),
      num_sqrt = sqrt64\<rparr>"

section \<open>cosineSimilarity (llm_query.js, lines 23-43)\<close>

text \<open>
  The \<^verbatim>\<open>for\<close> loop of lines 32-36. It runs only when both vectors have the same length,
  so it walks the two lists together; the accumulator is
  \<open>(dotProduct, normA, normB)\<close>, each component updated left to right as the source does.
\<close>

fun accumulate :: "'n arith \<Rightarrow> 'n list \<Rightarrow> 'n list \<Rightarrow> 'n \<times> 'n \<times> 'n \<Rightarrow> 'n \<times> 'n \<times> 'n" where
  "accumulate A (a # as) (b # bs) (dotProduct, normA, normB) =
     accumulate A as bs
       (num_add A dotProduct (num_mul A a b),
        num_add A normA (num_mul A a a),
        num_add A normB (num_mul A b b))"
| "accumulate A _ _ acc = acc"

definition cosineSimilarity :: "'n arith \<Rightarrow> 'n list \<Rightarrow> 'n list \<Rightarrow> error + 'n" where
  "cosineSimilarity A vectorA vectorB =
     (if length vectorA \<noteq> length vectorB then Inl DimensionMismatch
      else
        (case accumulate A vectorA vectorB (num_zero A, num_zero A, num_zero A) of
           (dotProduct, normA, normB) \<Rightarrow>
             if normA = num_zero A \<or> normB = num_zero A then Inr (num_zero A)
             else Inr (num_div A dotProduct (num_mul A (num_sqrt A normA) (num_sqrt A normB)))))"

section \<open>Messages, documents and the external collaborators\<close>

text \<open>
  A message of a session history, as \<^verbatim>\<open>getResponse\<close> reads it: \<^verbatim>\<open>message.role\<close> and
  \<^verbatim>\<open>message.content\<close>.
\<close>

record message =
  role :: string
  content :: string

text \<open>
  \<^verbatim>\<open>doc.metadata\<close> as \<^verbatim>\<open>fixDocumentMetadata\<close> tests it: a falsy value (\<open>Undefined\<close>), a
  truthy value whose \<^verbatim>\<open>typeof\<close> is not \<^verbatim>\<open>'object'\<close> (\<open>Primitive\<close>), or an object, a list
  of keys with their values in insertion order.
\<close>

datatype js_metadata = Undefined | Primitive | Object "(string \<times> string) list"

record document =
  pageContent :: string
  metadata :: js_metadata

type_synonym retriever = "string \<Rightarrow> error + document list"

text \<open>
  What the pipeline reaches outside the repository: the embedding provider
  (\<^verbatim>\<open>OpenAIEmbeddings.embedQuery\<close>), the environment variable \<^verbatim>\<open>CHAT_MODEL\<close>, and the chat
  model, called once to rewrite the question and once to answer. Each call may fail.
  Embeddings are lists of exact reals here: the decisions of the pipeline compare a
  similarity with a threshold and none of the statements below depends on rounding.
\<close>

record env =
  embedQuery :: "string \<Rightarrow> error + real list"
  CHAT_MODEL :: "string option"
  llm_rephrase :: "string \<Rightarrow> message list \<Rightarrow> string \<Rightarrow> error + string"
  llm_answer :: "string \<Rightarrow> document list \<Rightarrow> message list \<Rightarrow> string \<Rightarrow> error + string"

text \<open>
  The module state of llm_query.js (lines 19-20), and a log of the calls made to the
  retriever and to the chat model, in order. The log is not a variable of the program; it
  is what makes ``no retrieval and no model invocation'' a statement about the state.
\<close>

datatype call =
  RetrieverInvoke string
  | LlmContextualize string "message list" string
  | LlmAnswer string "document list" "message list" string

record state =
  chatHistoriesStore :: "string \<rightharpoonup> message list"
  currentModel :: "string option"
  calls :: "call list"

definition initial_state :: state where
  "initial_state = \<lparr>chatHistoriesStore = Map.empty, currentModel = None, calls = []\<rparr>"

section \<open>The session store (llm_query.js, lines 54-60)\<close>

text \<open>
  \<^verbatim>\<open>chatHistoriesStore\<close> is an object literal, so \<^verbatim>\<open>chatHistoriesStore[sessionId]\<close> also
  finds what every object inherits from \<^verbatim>\<open>Object.prototype\<close>. For one of these keys the
  lookup is truthy, \<^verbatim>\<open>getSessionHistory\<close> stores nothing and returns the inherited value,
  which has no \<^verbatim>\<open>getMessages\<close>.
\<close>

definition object_prototype_keys :: "string list" where
  "object_prototype_keys =
     [''constructor'', ''__proto__'', ''hasOwnProperty'', ''isPrototypeOf'',
      ''propertyIsEnumerable'', ''toLocaleString'', ''toString'', ''valueOf'',
      ''__defineGetter__'', ''__defineSetter__'', ''__lookupGetter__'', ''__lookupSetter__'']"

datatype history = ChatMessageHistory "message list" | Inherited

definition getSessionHistory :: "string \<Rightarrow> state \<Rightarrow> history \<times> state" where
  "getSessionHistory sessionId s =
     (if sessionId \<in> set object_prototype_keys then (Inherited, s)
      else
        (case chatHistoriesStore s sessionId of
           None \<Rightarrow>
             (ChatMessageHistory [],
              s\<lparr>chatHistoriesStore := (chatHistoriesStore s)(sessionId \<mapsto> [])\<rparr>)
         | Some msgs \<Rightarrow> (ChatMessageHistory msgs, s)))"

definition getMessages :: "history \<Rightarrow> error + message list" where
  "getMessages h = (case h of ChatMessageHistory msgs \<Rightarrow> Inr msgs | Inherited \<Rightarrow> Inl TypeError)"

text \<open>The messages of a session as a reader of the store sees them: none before the first use.\<close>

definition session_messages :: "state \<Rightarrow> string \<Rightarrow> message list" where
  "session_messages s sessionId =
     (case chatHistoriesStore s sessionId of None \<Rightarrow> [] | Some msgs \<Rightarrow> msgs)"

section \<open>Similarity of questions and confidence scores (llm_query.js, lines 45-52, 158-164)\<close>

definition areQuestionsSimilar :: "env \<Rightarrow> string \<Rightarrow> string \<Rightarrow> real \<Rightarrow> error + bool" where
  "areQuestionsSimilar E question1 question2 threshold =
     (case embedQuery E question1 of
        Inl e \<Rightarrow> Inl e
      | Inr embedding1 \<Rightarrow>
          (case embedQuery E question2 of
             Inl e \<Rightarrow> Inl e
           | Inr embedding2 \<Rightarrow>
               (case cosineSimilarity exact embedding1 embedding2 of
                  Inl e \<Rightarrow> Inl e
                | Inr similarity \<Rightarrow> Inr (similarity \<ge> threshold))))"

definition getConfidenceScore :: "env \<Rightarrow> string \<Rightarrow> string \<Rightarrow> error + real" where
  "getConfidenceScore E query doc_text =
     (case embedQuery E query of
        Inl e \<Rightarrow> Inl e
      | Inr queryEmbedding \<Rightarrow>
          (case embedQuery E doc_text of
             Inl e \<Rightarrow> Inl e
           | Inr documentEmbedding \<Rightarrow> cosineSimilarity exact queryEmbedding documentEmbedding))"

section \<open>getResponse (llm_query.js, lines 166-210)\<close>

definition DUPLICATE_QUESTION_MESSAGE :: string where
  "DUPLICATE_QUESTION_MESSAGE = ''It looks like you're asking a similar question to one you've already asked. This can lead to increased hallucination. Please refer to the ApostropheCMS documentation links given in the original answer or rephrase your question to be more specific. If you have additional questions, consider joining our Discord community from the link below for further assistance.''"

definition EMPTY_KNOWLEDGE_BASE_MESSAGE :: string where
  "EMPTY_KNOWLEDGE_BASE_MESSAGE = ''I'm sorry, the knowledge base appears to be empty. Please contact the administrator.''"

definition LOW_CONFIDENCE_MESSAGE :: string where
  "LOW_CONFIDENCE_MESSAGE = ''I'm sorry, I cannot provide a confident answer based on the available information in our current RAG database. The specific terms you are using may not exist or not be documented. Please consider rephrasing your question or joining our Discord for additional assistance.''"

definition similarityThreshold :: real where
  "similarityThreshold = 85 / 100"

definition confidenceThreshold :: real where
  "confidenceThreshold = 7 / 10"

text \<open>
  The loop of lines 171-177 over the messages of the session, in order: it returns at the
  first human message that is similar, and an error of a comparison leaves the loop at
  once. \<open>Inr False\<close> is the loop running to its end.
\<close>

fun similarQuestionAsked :: "env \<Rightarrow> string \<Rightarrow> message list \<Rightarrow> error + bool" where
  "similarQuestionAsked E userQuestion [] = Inr False"
| "similarQuestionAsked E userQuestion (m # ms) =
     (if role m = ''human'' then
        (case areQuestionsSimilar E userQuestion (content m) similarityThreshold of
           Inl e \<Rightarrow> Inl e
         | Inr similar \<Rightarrow>
             if similar then Inr True else similarQuestionAsked E userQuestion ms)
      else similarQuestionAsked E userQuestion ms)"

text \<open>
  Lines 183-185: one score for each retrieved document, in the order of the documents.
  \<^verbatim>\<open>Promise.all\<close> rejects as soon as one of the computations does; when several fail the
  model reports the failure of the first document in the list.
\<close>

fun confidenceScores :: "env \<Rightarrow> string \<Rightarrow> document list \<Rightarrow> error + real list" where
  "confidenceScores E userQuestion [] = Inr []"
| "confidenceScores E userQuestion (doc # docs) =
     (case getConfidenceScore E userQuestion (pageContent doc) of
        Inl e \<Rightarrow> Inl e
      | Inr score \<Rightarrow>
          (case confidenceScores E userQuestion docs of
             Inl e \<Rightarrow> Inl e
           | Inr scores \<Rightarrow> Inr (score # scores)))"

text \<open>\<^verbatim>\<open>Math.max(...xs)\<close>; \<open>None\<close> is \<^verbatim>\<open>-Infinity\<close>, the maximum of no number.\<close>

fun Math_max :: "real list \<Rightarrow> real option" where
  "Math_max [] = None"
| "Math_max (x # xs) = (case Math_max xs of None \<Rightarrow> Some x | Some m \<Rightarrow> Some (max x m))"

definition maxBelow :: "real list \<Rightarrow> real \<Rightarrow> bool" where
  "maxBelow scores threshold = (case Math_max scores of None \<Rightarrow> True | Some m \<Rightarrow> m < threshold)"

subsection \<open>setupLlmAndDb (llm_query.js, lines 62-156)\<close>

text \<open>
  The chain that \<^verbatim>\<open>setupLlmAndDb\<close> returns is determined by the chat model it chose and by
  the retriever it was given; the prompts are constants of the source.
\<close>

record chain =
  chain_llm :: string
  chain_retriever :: retriever

definition setupLlmAndDb :: "env \<Rightarrow> retriever \<Rightarrow> state \<Rightarrow> chain \<times> state" where
  "setupLlmAndDb E r s =
     (let modelChoice = (case CHAT_MODEL E of None \<Rightarrow> ''ChatOpenAI''
                         | Some c \<Rightarrow> if c = [] then ''ChatOpenAI'' else c)
      in if modelChoice = ''ChatOpenAI''
         then (\<lparr>chain_llm = ''gpt-4o'', chain_retriever = r\<rparr>,
               s\<lparr>currentModel := Some ''gpt-4o''\<rparr>)
         else (\<lparr>chain_llm = ''claude-3-5-sonnet-20240620'', chain_retriever = r\<rparr>,
               s\<lparr>currentModel := Some ''claude-3-5-sonnet-20240620''\<rparr>))"

text \<open>The name of the model that lines 65-81 choose, for stating what the function does.\<close>

definition modelName :: "env \<Rightarrow> string" where
  "modelName E =
     (if CHAT_MODEL E = None \<or> CHAT_MODEL E = Some [] \<or> CHAT_MODEL E = Some ''ChatOpenAI''
      then ''gpt-4o'' else ''claude-3-5-sonnet-20240620'')"

record response =
  answer :: string

text \<open>
  Modelled from the spec: \<^verbatim>\<open>createHistoryAwareRetriever\<close>, \<^verbatim>\<open>createStuffDocuments\<close>,
  \<^verbatim>\<open>createRetrieval\<close> and \<^verbatim>\<open>RunnableWithMessageHistory\<close> are imported by llm_query.js and
  their code is not part of the sources. \<open>invoke\<close> is the call
  \<^verbatim>\<open>conversationalRagChain.invoke({input}, {configurable: {sessionId}})\<close> as the
  specification of the conversational answerer describes it: the history of the session
  is read through \<^verbatim>\<open>getSessionHistory\<close>; the chat model rewrites the question given the
  history; the retriever is asked the rewritten question; the chat model answers from the
  retrieved documents, the history and the raw question; on success, and only then, the
  human question and the answer are appended to the history, in that order. A failure of
  either model call or of the retriever propagates.
\<close>

definition invoke :: "env \<Rightarrow> chain \<Rightarrow> string \<Rightarrow> string \<Rightarrow> state \<Rightarrow> (error + response) \<times> state" where
  "invoke E c input sessionId s =
     (case getSessionHistory sessionId s of
        (h, s1) \<Rightarrow>
          (case getMessages h of
             Inl e \<Rightarrow> (Inl e, s1)
           | Inr chat_history \<Rightarrow>
               (let s2 = s1\<lparr>calls := calls s1 @ [LlmContextualize (chain_llm c) chat_history input]\<rparr>
                in case llm_rephrase E (chain_llm c) chat_history input of
                     Inl e \<Rightarrow> (Inl e, s2)
                   | Inr query \<Rightarrow>
                       (let s3 = s2\<lparr>calls := calls s2 @ [RetrieverInvoke query]\<rparr>
                        in case chain_retriever c query of
                             Inl e \<Rightarrow> (Inl e, s3)
                           | Inr docs \<Rightarrow>
                               (let s4 = s3\<lparr>calls := calls s3 @
                                            [LlmAnswer (chain_llm c) docs chat_history input]\<rparr>
                                in case llm_answer E (chain_llm c) docs chat_history input of
                                     Inl e \<Rightarrow> (Inl e, s4)
                                   | Inr a \<Rightarrow>
                                       (Inr \<lparr>answer = a\<rparr>,
                                        s4\<lparr>chatHistoriesStore := (chatHistoriesStore s4)
                                             (sessionId \<mapsto> chat_history @
                                                [\<lparr>role = ''human'', content = input\<rparr>,
                                                 \<lparr>role = ''ai'', content = a\<rparr>])\<rparr>))))))"

subsection \<open>getResponse\<close>

text \<open>
  \<open>sessionIdArg = None\<close> is a call without the third argument, which takes the default
  \<^verbatim>\<open>'default_session'\<close>. \<open>retriever = None\<close> is the \<^verbatim>\<open>undefined\<close> that app.js passes when
  the vector store was never initialised; line 180 then throws a \<open>TypeError\<close>.
\<close>

definition getResponse ::
  "env \<Rightarrow> string \<Rightarrow> retriever option \<Rightarrow> string option \<Rightarrow> state \<Rightarrow> (error + string) \<times> state" where
  "getResponse E userQuestion retriever sessionIdArg s =
     (let sessionId = (case sessionIdArg of None \<Rightarrow> ''default_session'' | Some sid \<Rightarrow> sid)
      in case getSessionHistory sessionId s of
           (sessionHistory, s1) \<Rightarrow>
             (case getMessages sessionHistory of
                Inl e \<Rightarrow> (Inl e, s1)
              | Inr msgs \<Rightarrow>
                  (case similarQuestionAsked E userQuestion msgs of
                     Inl e \<Rightarrow> (Inl e, s1)
                   | Inr True \<Rightarrow> (Inr DUPLICATE_QUESTION_MESSAGE, s1)
                   | Inr False \<Rightarrow>
                       (case retriever of
                          None \<Rightarrow> (Inl TypeError, s1)
                        | Some r \<Rightarrow>
                            (let s2 = s1\<lparr>calls := calls s1 @ [RetrieverInvoke userQuestion]\<rparr>
                             in case r userQuestion of
                                  Inl e \<Rightarrow> (Inl e, s2)
                                | Inr retrievedDocs \<Rightarrow>
                                    (case confidenceScores E userQuestion retrievedDocs of
                                       Inl e \<Rightarrow> (Inl e, s2)
                                     | Inr scores \<Rightarrow>
                                         if length scores = 0
                                         then (Inr EMPTY_KNOWLEDGE_BASE_MESSAGE, s2)
                                         else if maxBelow scores confidenceThreshold
                                         then (Inr LOW_CONFIDENCE_MESSAGE, s2)
                                         else
                                           (case setupLlmAndDb E r s2 of
                                              (conversationalRagChain, s3) \<Rightarrow>
                                                (case invoke E conversationalRagChain
                                                        userQuestion sessionId s3 of
                                                   (Inl e, s4) \<Rightarrow> (Inl e, s4)
                                                 | (Inr resp, s4) \<Rightarrow>
                                                     (Inr (answer resp), s4)))))))))"

text \<open>
  The state of \<^verbatim>\<open>getResponse\<close> after line 180, for stating what the function returns: the
  session has its entry in the store and the retrieval is logged.
\<close>

definition after_retrieval :: "string \<Rightarrow> string \<Rightarrow> state \<Rightarrow> state" where
  "after_retrieval sessionId userQuestion s =
     (snd (getSessionHistory sessionId s))\<lparr>calls := calls s @ [RetrieverInvoke userQuestion]\<rparr>"


section \<open>The query handler of app.js (lines 149-180)\<close>




section \<open>Initialisation of the vector store (db_singleton.js, lines 17-88; app.js, lines 75-83, 246-253)\<close>

text \<open>
  The state of the server that start-up touches: the singleton \<^verbatim>\<open>ChromaDB._instance\<close>, the
  variable \<^verbatim>\<open>retriever\<close> of app.js, whether \<^verbatim>\<open>server.listen\<close> was called, and the timeline of
  the connection attempts and of the waits (the argument of \<^verbatim>\<open>setTimeout\<close>, in
  milliseconds). The outcome of the body of the \<^verbatim>\<open>try\<close> block of an attempt is a parameter:
  \<open>connect k\<close> is the outcome of the attempt made after \<open>k\<close> earlier ones.
\<close>

datatype startup_event = ConnectAttempt | Wait nat | Listen

record chromadb =
  chroma_retriever :: "retriever option"

record server =
  chroma_instance :: "chromadb option"
  app_retriever :: "retriever option"
  listening :: bool
  timeline :: "startup_event list"

definition maxRetries :: nat where
  "maxRetries = 3"

function initialize_from ::
  "(nat \<Rightarrow> error + retriever) \<Rightarrow> nat \<Rightarrow> chromadb \<Rightarrow> startup_event list
     \<Rightarrow> (error + unit) \<times> chromadb \<times> startup_event list" where
  "initialize_from connect retryCount this evs =
     (if retryCount < maxRetries then
        (case connect (count_list evs ConnectAttempt) of
           Inr r \<Rightarrow> (Inr (), this\<lparr>chroma_retriever := Some r\<rparr>, evs @ [ConnectAttempt])
         | Inl e \<Rightarrow>
             if retryCount + 1 \<ge> maxRetries then (Inl e, this, evs @ [ConnectAttempt])
             else initialize_from connect (retryCount + 1) this (evs @ [ConnectAttempt, Wait 2000]))
      else (Inr (), this, evs))"
  by pat_completeness auto
termination
  by (relation "measure (\<lambda>(connect, retryCount, this, evs). maxRetries - retryCount)") auto

definition ChromaDB_initialize ::
  "(nat \<Rightarrow> error + retriever) \<Rightarrow> chromadb \<Rightarrow> startup_event list
     \<Rightarrow> (error + unit) \<times> chromadb \<times> startup_event list" where
  "ChromaDB_initialize connect this evs = initialize_from connect 0 this evs"

definition getInstance :: "(nat \<Rightarrow> error + retriever) \<Rightarrow> server \<Rightarrow> (error + chromadb) \<times> server" where
  "getInstance connect srv =
     (case chroma_instance srv of
        Some c \<Rightarrow> (Inr c, srv)
      | None \<Rightarrow>
          (case ChromaDB_initialize connect \<lparr>chroma_retriever = None\<rparr> (timeline srv) of
             (Inl e, c, evs) \<Rightarrow> (Inl e, srv\<lparr>chroma_instance := Some c, timeline := evs\<rparr>)
           | (Inr u, c, evs) \<Rightarrow> (Inr c, srv\<lparr>chroma_instance := Some c, timeline := evs\<rparr>)))"

text \<open>
  \<^verbatim>\<open>initChroma\<close> (app.js, lines 75-83) catches whatever \<^verbatim>\<open>getInstance\<close> throws and only logs
  it; \<^verbatim>\<open>startServer\<close> then goes on to \<^verbatim>\<open>server.listen\<close>. (\<^verbatim>\<open>connectToMongo\<close>, which runs
  first, touches none of this state and catches its own errors.)
\<close>

definition initChroma :: "(nat \<Rightarrow> error + retriever) \<Rightarrow> server \<Rightarrow> (error + unit) \<times> server" where
  "initChroma connect srv =
     (case getInstance connect srv of
        (Inr c, srv1) \<Rightarrow> (Inr (), srv1\<lparr>app_retriever := chroma_retriever c\<rparr>)
      | (Inl e, srv1) \<Rightarrow> (Inr (), srv1))"

definition startServer :: "(nat \<Rightarrow> error + retriever) \<Rightarrow> server \<Rightarrow> (error + unit) \<times> server" where
  "startServer connect srv =
     (case initChroma connect srv of
        (Inl e, srv1) \<Rightarrow> (Inl e, srv1)
      | (Inr u, srv1) \<Rightarrow>
          (Inr (), srv1\<lparr>listening := True, timeline := timeline srv1 @ [Listen]\<rparr>))"

definition initial_server :: server where
  "initial_server =
     \<lparr>chroma_instance = None, app_retriever = None, listening = False, timeline = []\<rparr>"

text \<open>A vector store that refuses every connection.\<close>

definition always_refused :: "nat \<Rightarrow> error + retriever" where
  "always_refused k = Inl (Thrown ''connection refused'')"

section \<open>fixDocumentMetadata (db_singleton.js, lines 121-167)\<close>

text \<open>
  Strings are lists of 8-bit characters, one for each code unit of the JavaScript string:
  the model covers text of the Latin-1 range. The string methods the function calls:
  \<^verbatim>\<open>split('\n')\<close>, \<^verbatim>\<open>join('\n')\<close>, \<^verbatim>\<open>includes\<close>, \<^verbatim>\<open>replace\<close> with a string pattern (the first
  occurrence only) and the empty replacement, and \<^verbatim>\<open>trim\<close>.
\<close>

definition newline :: char where
  "newline = CHR 0x0A"

fun split_lines :: "string \<Rightarrow> string list" where
  "split_lines [] = [[]]"
| "split_lines (c # cs) =
     (if c = newline then [] # split_lines cs
      else (case split_lines cs of [] \<Rightarrow> [[c]] | l # ls \<Rightarrow> (c # l) # ls))"

fun join_lines :: "string list \<Rightarrow> string" where
  "join_lines [] = []"
| "join_lines [l] = l"
| "join_lines (l # ls) = l @ newline # join_lines ls"

fun str_includes :: "string \<Rightarrow> string \<Rightarrow> bool" where
  "str_includes [] sub = (sub = [])"
| "str_includes (c # cs) sub = (prefix sub (c # cs) \<or> str_includes cs sub)"

fun remove_first :: "string \<Rightarrow> string \<Rightarrow> string" where
  "remove_first sub [] = []"
| "remove_first sub (c # cs) =
     (if prefix sub (c # cs) then drop (length sub) (c # cs) else c # remove_first sub cs)"

definition is_space :: "char \<Rightarrow> bool" where
  "is_space c = (c \<in> set [CHR 0x09, CHR 0x0A, CHR 0x0B, CHR 0x0C, CHR 0x0D, CHR 0x20, CHR 0xA0])"

definition trim :: "string \<Rightarrow> string" where
  "trim s = rev (dropWhile is_space (rev (dropWhile is_space s)))"

definition REFERENCE_URL :: string where
  "REFERENCE_URL = ''Reference URL:''"

definition DEFAULT_URL :: string where
  "DEFAULT_URL = ''https://docs.apostrophecms.org/''"

text \<open>Lines 123-130: a missing metadata, or one that is no object, becomes the empty object.\<close>

definition metadata_object :: "js_metadata \<Rightarrow> (string \<times> string) list" where
  "metadata_object m = (case m of Object kvs \<Rightarrow> kvs | Undefined \<Rightarrow> [] | Primitive \<Rightarrow> [])"

text \<open>\<^verbatim>\<open>!doc.metadata.url\<close>: the key is absent or its value is the empty string.\<close>

definition url_missing :: "(string \<times> string) list \<Rightarrow> bool" where
  "url_missing kvs = (case map_of kvs ''url'' of None \<Rightarrow> True | Some u \<Rightarrow> u = [])"

text \<open>
  Lines 133-158, on the content and the metadata object of one document. The body of the
  \<^verbatim>\<open>try\<close> block calls string and array methods only, none of which throws.
\<close>

definition extractUrl :: "string \<Rightarrow> (string \<times> string) list \<Rightarrow> string \<times> (string \<times> string) list" where
  "extractUrl page kvs =
     (if url_missing kvs \<and> page \<noteq> [] \<and> str_includes page REFERENCE_URL then
        (let contentLines = split_lines page;
             urlLineIndices =
               filter (\<lambda>i. str_includes (contentLines ! i) REFERENCE_URL) [0..<length contentLines]
         in if length urlLineIndices > 0 then
              (let urlLineIndex = hd urlLineIndices;
                   url = trim (remove_first REFERENCE_URL (contentLines ! urlLineIndex));
                   newContentLines =
                     map (\<lambda>i. contentLines ! i)
                       (filter (\<lambda>i. i \<noteq> urlLineIndex) [0..<length contentLines])
               in (join_lines newContentLines, AList.update ''url'' url kvs))
            else (page, kvs))
      else (page, kvs))"

text \<open>The body of the loop over the documents, lines 122-164.\<close>

definition fixDocument :: "document \<Rightarrow> document" where
  "fixDocument doc =
     (case extractUrl (pageContent doc) (metadata_object (metadata doc)) of
        (page, kvs) \<Rightarrow>
          \<lparr>pageContent = page,
           metadata = Object (if url_missing kvs then AList.update ''url'' DEFAULT_URL kvs else kvs)\<rparr>)"

definition fixDocumentMetadata :: "document list \<Rightarrow> document list" where
  "fixDocumentMetadata documents = map fixDocument documents"

definition doc_url :: "document \<Rightarrow> string option" where
  "doc_url doc = map_of (metadata_object (metadata doc)) ''url''"

section \<open>A worked scenario\<close>

text \<open>
  Concrete collaborators on which the statements below are evaluated. The embedding
  provider maps texts about widgets to \<open>[1, 0]\<close> and texts about deployment to \<open>[0, 1]\<close>, and
  fails on the text \<open>?\<close>; the knowledge base holds one document on each subject.
\<close>

definition widget_doc :: document where
  "widget_doc =
     \<lparr>pageContent = ''Widgets are reusable blocks of content.'',
      metadata = Object [(''url'', ''https://docs.apostrophecms.org/widgets'')]\<rparr>"

definition deploy_doc :: document where
  "deploy_doc =
     \<lparr>pageContent = ''Deploy with a process manager.'',
      metadata = Object [(''url'', ''https://docs.apostrophecms.org/deploy'')]\<rparr>"

definition demo_embed :: "string \<Rightarrow> error + real list" where
  "demo_embed t =
     (if t = ''?'' then Inl (Thrown ''embedding failed'')
      else if t = ''What is a widget?'' \<or> t = ''How do widgets work?'' \<or>
              t = ''Widgets are reusable blocks of content.'' then Inr [1, 0]
      else Inr [0, 1])"

text \<open>
  The chat model rewrites a follow-up question into a question about widgets when the
  session has a history, and answers with a fixed text; \<open>failing_llm\<close> fails at the answer.
\<close>

definition demo_env :: env where
  "demo_env =
     \<lparr>embedQuery = demo_embed,
      CHAT_MODEL = None,
      llm_rephrase = (\<lambda>model history input.
         if history = [] then Inr input else Inr ''How do widgets work?''),
      llm_answer = (\<lambda>model docs history input. Inr ''See the documentation.'')\<rparr>"

definition failing_env :: env where
  "failing_env =
     demo_env\<lparr>llm_answer := (\<lambda>model docs history input. Inl (Thrown ''rate limit''))\<rparr>"

definition demo_retriever :: retriever where
  "demo_retriever query =
     (if query = ''What is a widget?'' \<or> query = ''How do widgets work?'' then Inr [widget_doc]
      else Inr [deploy_doc])"



text \<open>A state in which the session \<open>s1\<close> has asked about widgets and was answered.\<close>

definition asked_state :: state where
  "asked_state =
     \<lparr>chatHistoriesStore =
        [''s1'' \<mapsto> [\<lparr>role = ''human'', content = ''What is a widget?''\<rparr>,
                   \<lparr>role = ''ai'', content = ''See the documentation.''\<rparr>]],
      currentModel = Some ''gpt-4o'',
      calls = []\<rparr>"

section \<open>Properties of cosineSimilarity\<close>

subsection \<open>On exact numbers\<close>

lemma accumulate_exact:
  "length as = length bs \<Longrightarrow>
   accumulate exact as bs (d, na, nb) =
     (d + (\<Sum>(a, b)\<leftarrow>zip as bs. a * b), na + (\<Sum>a\<leftarrow>as. a * a), nb + (\<Sum>b\<leftarrow>bs. b * b))"
  by (induction as bs arbitrary: d na nb rule: list_induct2) (simp_all add: exact_def algebra_simps)



lemma cosineSimilarity_exact_eq:
  "cosineSimilarity exact a b =
     (if length a \<noteq> length b then Inl DimensionMismatch
      else if (\<Sum>x\<leftarrow>a. x * x) = 0 \<or> (\<Sum>y\<leftarrow>b. y * y) = 0 then Inr 0
      else Inr ((\<Sum>(x, y)\<leftarrow>zip a b. x * y) / (sqrt (\<Sum>x\<leftarrow>a. x * x) * sqrt (\<Sum>y\<leftarrow>b. y * y))))"
proof (cases "length a = length b")
  case True
  then show ?thesis
    by (simp add: cosineSimilarity_def accumulate_exact [OF True]) (simp add: exact_def)
next
  case False
  then show ?thesis by (simp add: cosineSimilarity_def)
qed

lemma accumulate_swap:
  assumes "\<And>x y. num_mul A x y = num_mul A y x"
  shows "accumulate A bs as (d, nb, na) =
         (case accumulate A as bs (d, na, nb) of (d', na', nb') \<Rightarrow> (d', nb', na'))"
proof (induction as arbitrary: bs d na nb)
  case Nil
  then show ?case by (cases bs) simp_all
next
  case (Cons a as)
  show ?case
  proof (cases bs)
    case Nil
    then show ?thesis by simp
  next
    case (Cons b bs')
    then show ?thesis using Cons.IH [of bs'] by (simp add: assms [of b a])
  qed
qed

lemma cosineSimilarity_commute:
  assumes "\<And>x y. num_mul A x y = num_mul A y x"
  shows "cosineSimilarity A a b = cosineSimilarity A b a"
proof (cases "length a = length b")
  case True
  obtain d na nb where acc: "accumulate A a b (num_zero A, num_zero A, num_zero A) = (d, na, nb)"
    by (metis prod_cases3)
  have "accumulate A b a (num_zero A, num_zero A, num_zero A) = (d, nb, na)"
    using accumulate_swap [OF assms, of b a] acc by simp
  with acc True show ?thesis
    by (auto simp add: cosineSimilarity_def assms [of "num_sqrt A na"])
next
  case False
  then show ?thesis by (auto simp add: cosineSimilarity_def)
qed




subsection \<open>On binary64 numbers\<close>





lemma binary64_mul_commute: "num_mul binary64 x y = num_mul binary64 y x"
  by (simp add: binary64_def mult.commute)

lemma exact_mul_commute: "num_mul exact x y = num_mul exact y x"
  by (simp add: exact_def)

section \<open>C7: cosine similarity is symmetric\<close>

text \<open>
  C7. For every pair of vectors \<open>a\<close> and \<open>b\<close>, \<open>cosineSimilarity a b\<close> and
  \<open>cosineSimilarity b a\<close> are the same result (the same number for vectors of equal length, the
  same error otherwise). The proof only needs the multiplication of the number type to be
  commutative, which holds of exact and of binary64 multiplication alike
  (\<open>exact_mul_commute\<close>, \<open>binary64_mul_commute\<close>).
\<close>

theorem cosineSimilarity_symmetric:
  assumes "\<forall>x y. num_mul A x y = num_mul A y x"
  shows "cosineSimilarity A a b = cosineSimilarity A b a"
  using assms by (intro cosineSimilarity_commute) simp

theorem cosineSimilarity_symmetric_witness:
  "cosineSimilarity exact [3, 4] [4, 3] = Inr (24 / 25) \<and>
   cosineSimilarity exact [4, 3] [3, 4] = Inr (24 / 25)"
proof -
  have l: "cosineSimilarity exact [3, 4] [4, 3] = Inr (24 / 25)"
    by (simp add: cosineSimilarity_exact_eq)
  have "\<forall>x y. num_mul exact x y = num_mul exact y x"
    by (simp add: exact_def)
  from cosineSimilarity_symmetric [OF this, of "[3, 4]" "[4, 3]"] l show ?thesis
    by simp
qed

section \<open>C6: the contract of cosineSimilarity\<close>




section \<open>Properties of the pipeline\<close>

subsection \<open>The session store\<close>

lemma getSessionHistory_inherited:
  "sessionId \<in> set object_prototype_keys \<Longrightarrow> getSessionHistory sessionId s = (Inherited, s)"
  by (simp add: getSessionHistory_def)

lemma getSessionHistory_fst:
  "sessionId \<notin> set object_prototype_keys \<Longrightarrow>
   fst (getSessionHistory sessionId s) = ChatMessageHistory (session_messages s sessionId)"
  by (simp add: getSessionHistory_def session_messages_def split: option.splits)

lemma getSessionHistory_snd [simp]:
  "calls (snd (getSessionHistory sessionId s)) = calls s"
  "currentModel (snd (getSessionHistory sessionId s)) = currentModel s"
  "session_messages (snd (getSessionHistory sessionId s)) = session_messages s"
  by (auto simp add: getSessionHistory_def session_messages_def fun_eq_iff split: option.splits)

lemma getSessionHistory_store:
  "sessionId \<notin> set object_prototype_keys \<Longrightarrow>
   chatHistoriesStore (snd (getSessionHistory sessionId s)) sessionId =
     Some (session_messages s sessionId)"
  by (simp add: getSessionHistory_def session_messages_def split: option.splits)

lemma getSessionHistory_again:
  assumes "sessionId \<notin> set object_prototype_keys"
    and "chatHistoriesStore s' = chatHistoriesStore (snd (getSessionHistory sessionId s))"
  shows "getSessionHistory sessionId s' = (ChatMessageHistory (session_messages s sessionId), s')"
  using assms getSessionHistory_store [OF assms(1), of s]
  by (simp add: getSessionHistory_def)

lemma default_session_not_inherited: "''default_session'' \<notin> set object_prototype_keys"
  by (simp add: object_prototype_keys_def)

subsection \<open>The comparisons\<close>




lemma similarQuestionAsked_False_iff:
  "similarQuestionAsked E q msgs = Inr False \<longleftrightarrow>
     (\<forall>m\<in>set msgs. role m = ''human'' \<longrightarrow>
        areQuestionsSimilar E q (content m) similarityThreshold = Inr False)"
  by (induction msgs) (auto split: sum.splits)

lemma similarQuestionAsked_found:
  assumes "role m = ''human''"
    and "areQuestionsSimilar E q (content m) similarityThreshold = Inr True"
    and "\<forall>m'\<in>set pre. role m' = ''human'' \<longrightarrow>
           (\<exists>b. areQuestionsSimilar E q (content m') similarityThreshold = Inr b)"
  shows "similarQuestionAsked E q (pre @ m # post) = Inr True"
  using assms by (induction pre) auto

lemma similarQuestionAsked_True_iff:
  "similarQuestionAsked E q msgs = Inr True \<longleftrightarrow>
     (\<exists>pre m post. msgs = pre @ m # post \<and> role m = ''human'' \<and>
        areQuestionsSimilar E q (content m) similarityThreshold = Inr True \<and>
        (\<forall>m'\<in>set pre. role m' = ''human'' \<longrightarrow>
           areQuestionsSimilar E q (content m') similarityThreshold = Inr False))"
proof
  show "similarQuestionAsked E q msgs = Inr True \<Longrightarrow>
     (\<exists>pre m post. msgs = pre @ m # post \<and> role m = ''human'' \<and>
        areQuestionsSimilar E q (content m) similarityThreshold = Inr True \<and>
        (\<forall>m'\<in>set pre. role m' = ''human'' \<longrightarrow>
           areQuestionsSimilar E q (content m') similarityThreshold = Inr False))"
  proof (induction msgs)
    case Nil
    then show ?case by simp
  next
    case (Cons a msgs)
    show ?case
    proof (cases "role a = ''human'' \<and> areQuestionsSimilar E q (content a) similarityThreshold = Inr True")
      case True
      then show ?thesis by (intro exI [of _ "[]"] exI [of _ a] exI [of _ msgs]) simp
    next
      case False
      with Cons.prems have rest: "similarQuestionAsked E q msgs = Inr True"
        and a: "role a = ''human'' \<longrightarrow> areQuestionsSimilar E q (content a) similarityThreshold = Inr False"
        by (auto split: sum.splits if_splits)
      from Cons.IH [OF rest] obtain pre m post where
        "msgs = pre @ m # post" "role m = ''human''"
        "areQuestionsSimilar E q (content m) similarityThreshold = Inr True"
        "\<forall>m'\<in>set pre. role m' = ''human'' \<longrightarrow>
           areQuestionsSimilar E q (content m') similarityThreshold = Inr False"
        by blast
      with a show ?thesis
        by (intro exI [of _ "a # pre"] exI [of _ m] exI [of _ post]) simp
    qed
  qed
next
  assume "\<exists>pre m post. msgs = pre @ m # post \<and> role m = ''human'' \<and>
        areQuestionsSimilar E q (content m) similarityThreshold = Inr True \<and>
        (\<forall>m'\<in>set pre. role m' = ''human'' \<longrightarrow>
           areQuestionsSimilar E q (content m') similarityThreshold = Inr False)"
  then show "similarQuestionAsked E q msgs = Inr True"
    by (auto intro!: similarQuestionAsked_found)
qed

lemma confidenceScores_length:
  "confidenceScores E q docs = Inr scores \<Longrightarrow> length scores = length docs"
  by (induction docs arbitrary: scores) (auto split: sum.splits)

lemma confidenceScores_InrD:
  "confidenceScores E q docs = Inr scores \<Longrightarrow>
   map (\<lambda>doc. getConfidenceScore E q (pageContent doc)) docs = map Inr scores"
  by (induction docs arbitrary: scores) (auto split: sum.splits)

lemma confidenceScores_InrI:
  "map (\<lambda>doc. getConfidenceScore E q (pageContent doc)) docs = map Inr scores \<Longrightarrow>
   confidenceScores E q docs = Inr scores"
  by (induction docs arbitrary: scores) auto

lemma confidenceScores_Inr_iff:
  "confidenceScores E q docs = Inr scores \<longleftrightarrow>
     map (\<lambda>doc. getConfidenceScore E q (pageContent doc)) docs = map Inr scores"
  using confidenceScores_InrD confidenceScores_InrI by blast

lemma Math_max_eq: "scores \<noteq> [] \<Longrightarrow> Math_max scores = Some (Max (set scores))"
proof (induction scores)
  case Nil
  then show ?case by simp
next
  case (Cons x xs)
  then show ?case by (cases xs) (simp_all add: max.commute)
qed

lemma maxBelow_iff: "scores \<noteq> [] \<Longrightarrow> maxBelow scores t \<longleftrightarrow> Max (set scores) < t"
  by (simp add: maxBelow_def Math_max_eq)

subsection \<open>The paths of getResponse\<close>

lemma getResponse_default:
  "getResponse E q r None s = getResponse E q r (Some ''default_session'') s"
  by (simp add: getResponse_def)

lemma getResponse_inherited:
  "sid \<in> set object_prototype_keys \<Longrightarrow> getResponse E q r (Some sid) s = (Inl TypeError, s)"
  by (simp add: getResponse_def getSessionHistory_inherited getMessages_def)

lemma getResponse_valid:
  assumes "sid \<notin> set object_prototype_keys"
  shows "getResponse E q r (Some sid) s =
     (case similarQuestionAsked E q (session_messages s sid) of
        Inl e \<Rightarrow> (Inl e, snd (getSessionHistory sid s))
      | Inr True \<Rightarrow> (Inr DUPLICATE_QUESTION_MESSAGE, snd (getSessionHistory sid s))
      | Inr False \<Rightarrow>
          (case r of
             None \<Rightarrow> (Inl TypeError, snd (getSessionHistory sid s))
           | Some rf \<Rightarrow>
               (case rf q of
                  Inl e \<Rightarrow> (Inl e, after_retrieval sid q s)
                | Inr docs \<Rightarrow>
                    (case confidenceScores E q docs of
                       Inl e \<Rightarrow> (Inl e, after_retrieval sid q s)
                     | Inr scores \<Rightarrow>
                         if scores = [] then (Inr EMPTY_KNOWLEDGE_BASE_MESSAGE, after_retrieval sid q s)
                         else if maxBelow scores confidenceThreshold
                         then (Inr LOW_CONFIDENCE_MESSAGE, after_retrieval sid q s)
                         else
                           (case invoke E (fst (setupLlmAndDb E rf (after_retrieval sid q s))) q sid
                                   (snd (setupLlmAndDb E rf (after_retrieval sid q s))) of
                              (Inl e, s') \<Rightarrow> (Inl e, s')
                            | (Inr resp, s') \<Rightarrow> (Inr (answer resp), s'))))))"
proof (cases "getSessionHistory sid s")
  case (Pair h s1)
  with getSessionHistory_fst [OF assms, of s] have h: "h = ChatMessageHistory (session_messages s sid)"
    by simp
  from Pair have s1: "snd (getSessionHistory sid s) = s1" by simp
  from s1 have c: "calls s1 = calls s" by (metis getSessionHistory_snd(1))
  show ?thesis
    unfolding after_retrieval_def s1
    by (simp add: getResponse_def Pair h getMessages_def c
        split: sum.splits bool.splits option.splits prod.splits)
qed

lemma getResponse_duplicate:
  assumes "sid \<notin> set object_prototype_keys"
    and "similarQuestionAsked E q (session_messages s sid) = Inr True"
  shows "getResponse E q r (Some sid) s =
           (Inr DUPLICATE_QUESTION_MESSAGE, snd (getSessionHistory sid s))"
  by (simp add: getResponse_valid [OF assms(1)] assms(2))



lemma getResponse_answering:
  assumes "sid \<notin> set object_prototype_keys"
    and "similarQuestionAsked E q (session_messages s sid) = Inr False"
    and "r q = Inr docs" and "confidenceScores E q docs = Inr scores"
    and "scores \<noteq> []" and "\<not> maxBelow scores confidenceThreshold"
  shows "getResponse E q (Some r) (Some sid) s =
           (case invoke E (fst (setupLlmAndDb E r (after_retrieval sid q s))) q sid
                   (snd (setupLlmAndDb E r (after_retrieval sid q s))) of
              (Inl e, s') \<Rightarrow> (Inl e, s')
            | (Inr resp, s') \<Rightarrow> (Inr (answer resp), s'))"
  by (simp add: getResponse_valid [OF assms(1)] assms(2-))

lemma session_messages_update [simp]:
  "session_messages (s\<lparr>calls := c\<rparr>) = session_messages s"
  "session_messages (s\<lparr>currentModel := m\<rparr>) = session_messages s"
  by (simp_all add: session_messages_def fun_eq_iff)

lemma after_retrieval_simps [simp]:
  "calls (after_retrieval sid q s) = calls s @ [RetrieverInvoke q]"
  "currentModel (after_retrieval sid q s) = currentModel s"
  "session_messages (after_retrieval sid q s) = session_messages s"
  "chatHistoriesStore (after_retrieval sid q s) = chatHistoriesStore (snd (getSessionHistory sid s))"
  by (simp_all add: after_retrieval_def)

subsection \<open>The answering chain\<close>

lemma setupLlmAndDb_eq:
  "setupLlmAndDb E r s =
     (\<lparr>chain_llm = modelName E, chain_retriever = r\<rparr>, s\<lparr>currentModel := Some (modelName E)\<rparr>)"
  by (auto simp add: setupLlmAndDb_def modelName_def Let_def split: option.splits)

lemma invoke_unfold:
  assumes "getSessionHistory sid s = (ChatMessageHistory msgs, s)"
  shows "invoke E c input sid s =
     (case llm_rephrase E (chain_llm c) msgs input of
        Inl e \<Rightarrow> (Inl e, s\<lparr>calls := calls s @ [LlmContextualize (chain_llm c) msgs input]\<rparr>)
      | Inr query \<Rightarrow>
          (case chain_retriever c query of
             Inl e \<Rightarrow>
               (Inl e, s\<lparr>calls := calls s @
                  [LlmContextualize (chain_llm c) msgs input, RetrieverInvoke query]\<rparr>)
           | Inr docs \<Rightarrow>
               (case llm_answer E (chain_llm c) docs msgs input of
                  Inl e \<Rightarrow>
                    (Inl e, s\<lparr>calls := calls s @
                       [LlmContextualize (chain_llm c) msgs input, RetrieverInvoke query,
                        LlmAnswer (chain_llm c) docs msgs input]\<rparr>)
                | Inr a \<Rightarrow>
                    (Inr \<lparr>answer = a\<rparr>,
                     s\<lparr>calls := calls s @
                         [LlmContextualize (chain_llm c) msgs input, RetrieverInvoke query,
                          LlmAnswer (chain_llm c) docs msgs input],
                       chatHistoriesStore := (chatHistoriesStore s)
                         (sid \<mapsto> msgs @ [\<lparr>role = ''human'', content = input\<rparr>,
                                          \<lparr>role = ''ai'', content = a\<rparr>])\<rparr>))))"
  by (simp add: invoke_def assms getMessages_def Let_def split: sum.splits)

lemma session_messages_store_update:
  "session_messages (s\<lparr>chatHistoriesStore := f(sid \<mapsto> v)\<rparr>) x =
     (if x = sid then v else (case f x of None \<Rightarrow> [] | Some m \<Rightarrow> m))"
  by (simp add: session_messages_def)

lemma session_messages_snd_getSessionHistory:
  "(case chatHistoriesStore (snd (getSessionHistory sid s)) x of None \<Rightarrow> [] | Some m \<Rightarrow> m) =
     session_messages s x"
  using getSessionHistory_snd(3) [of sid s, unfolded session_messages_def fun_eq_iff]
  by (simp add: session_messages_def)

text \<open>The state in which the chain is invoked, and the four ways the invocation ends.\<close>

lemma getResponse_answering_unfold:
  assumes "sid \<notin> set object_prototype_keys"
    and "similarQuestionAsked E q (session_messages s sid) = Inr False"
    and "r q = Inr docs" and "confidenceScores E q docs = Inr scores"
    and "scores \<noteq> []" and "\<not> maxBelow scores confidenceThreshold"
  shows "getResponse E q (Some r) (Some sid) s =
     (case invoke E \<lparr>chain_llm = modelName E, chain_retriever = r\<rparr> q sid
             ((after_retrieval sid q s)\<lparr>currentModel := Some (modelName E)\<rparr>) of
        (Inl e, s') \<Rightarrow> (Inl e, s')
      | (Inr resp, s') \<Rightarrow> (Inr (answer resp), s'))"
  by (simp add: getResponse_valid [OF assms(1)] assms(2-) setupLlmAndDb_eq)

lemma chain_state_history:
  assumes "sid \<notin> set object_prototype_keys"
  shows "getSessionHistory sid ((after_retrieval sid q s)\<lparr>currentModel := m\<rparr>) =
    (ChatMessageHistory (session_messages s sid), (after_retrieval sid q s)\<lparr>currentModel := m\<rparr>)"
  by (rule getSessionHistory_again [OF assms]) simp

lemma getResponse_rephrase_fails:
  assumes "sid \<notin> set object_prototype_keys"
    and "similarQuestionAsked E q (session_messages s sid) = Inr False"
    and "r q = Inr docs" and "confidenceScores E q docs = Inr scores"
    and "scores \<noteq> []" and "\<not> maxBelow scores confidenceThreshold"
    and "llm_rephrase E (modelName E) (session_messages s sid) q = Inl e"
  shows "\<exists>s'. getResponse E q (Some r) (Some sid) s = (Inl e, s') \<and>
     calls s' = calls s @ [RetrieverInvoke q,
        LlmContextualize (modelName E) (session_messages s sid) q] \<and>
     currentModel s' = Some (modelName E) \<and>
     session_messages s' = session_messages s"
  using assms(3)
  by (simp add: getResponse_answering_unfold [where docs = docs, OF assms(1,2) _ assms(4-6)]
      invoke_unfold [OF chain_state_history [OF assms(1)]] assms(7))

lemma getResponse_second_retrieval_fails:
  assumes "sid \<notin> set object_prototype_keys"
    and "similarQuestionAsked E q (session_messages s sid) = Inr False"
    and "r q = Inr docs" and "confidenceScores E q docs = Inr scores"
    and "scores \<noteq> []" and "\<not> maxBelow scores confidenceThreshold"
    and "llm_rephrase E (modelName E) (session_messages s sid) q = Inr q'"
    and "r q' = Inl e"
  shows "\<exists>s'. getResponse E q (Some r) (Some sid) s = (Inl e, s') \<and>
     calls s' = calls s @ [RetrieverInvoke q,
        LlmContextualize (modelName E) (session_messages s sid) q, RetrieverInvoke q'] \<and>
     currentModel s' = Some (modelName E) \<and>
     session_messages s' = session_messages s"
  using assms(3)
  by (simp add: getResponse_answering_unfold [where docs = docs, OF assms(1,2) _ assms(4-6)]
      invoke_unfold [OF chain_state_history [OF assms(1)]] assms(7,8))

lemma getResponse_answer_fails:
  assumes "sid \<notin> set object_prototype_keys"
    and "similarQuestionAsked E q (session_messages s sid) = Inr False"
    and "r q = Inr docs" and "confidenceScores E q docs = Inr scores"
    and "scores \<noteq> []" and "\<not> maxBelow scores confidenceThreshold"
    and "llm_rephrase E (modelName E) (session_messages s sid) q = Inr q'"
    and "r q' = Inr docs'"
    and "llm_answer E (modelName E) docs' (session_messages s sid) q = Inl e"
  shows "\<exists>s'. getResponse E q (Some r) (Some sid) s = (Inl e, s') \<and>
     calls s' = calls s @ [RetrieverInvoke q,
        LlmContextualize (modelName E) (session_messages s sid) q, RetrieverInvoke q',
        LlmAnswer (modelName E) docs' (session_messages s sid) q] \<and>
     currentModel s' = Some (modelName E) \<and>
     session_messages s' = session_messages s"
  using assms(3)
  by (simp add: getResponse_answering_unfold [where docs = docs, OF assms(1,2) _ assms(4-6)]
      invoke_unfold [OF chain_state_history [OF assms(1)]] assms(7-))

lemma getResponse_answered:
  assumes "sid \<notin> set object_prototype_keys"
    and "similarQuestionAsked E q (session_messages s sid) = Inr False"
    and "r q = Inr docs" and "confidenceScores E q docs = Inr scores"
    and "scores \<noteq> []" and "\<not> maxBelow scores confidenceThreshold"
    and "llm_rephrase E (modelName E) (session_messages s sid) q = Inr q'"
    and "r q' = Inr docs'"
    and "llm_answer E (modelName E) docs' (session_messages s sid) q = Inr a"
  shows "\<exists>s'. getResponse E q (Some r) (Some sid) s = (Inr a, s') \<and>
     calls s' = calls s @ [RetrieverInvoke q,
        LlmContextualize (modelName E) (session_messages s sid) q, RetrieverInvoke q',
        LlmAnswer (modelName E) docs' (session_messages s sid) q] \<and>
     currentModel s' = Some (modelName E) \<and>
     session_messages s' = (session_messages s)
       (sid := session_messages s sid @
          [\<lparr>role = ''human'', content = q\<rparr>, \<lparr>role = ''ai'', content = a\<rparr>])"
  using assms(3)
  by (simp add: getResponse_answering_unfold [where docs = docs, OF assms(1,2) _ assms(4-6)]
      invoke_unfold [OF chain_state_history [OF assms(1)]] assms(7-))
    (simp add: session_messages_store_update fun_eq_iff session_messages_snd_getSessionHistory)

subsection \<open>Facts of the worked scenario\<close>


lemma s1_not_inherited: "''s1'' \<notin> set object_prototype_keys"
  by (simp add: object_prototype_keys_def)

lemma cosine_same_axis: "cosineSimilarity exact [1, 0] [1, 0] = Inr 1"
  by (simp add: cosineSimilarity_exact_eq)

lemma cosine_orthogonal:
  "cosineSimilarity exact [0, 1] [1, 0] = Inr 0" "cosineSimilarity exact [1, 0] [0, 1] = Inr 0"
  by (simp_all add: cosineSimilarity_exact_eq)

section \<open>C1: the duplicate-question guard\<close>



section \<open>C2: the confidence gate\<close>


lemma initial_messages [simp]: "session_messages initial_state sid = []"
  by (simp add: session_messages_def initial_state_def)

lemma demo_scores_widget:
  "confidenceScores demo_env ''What is a widget?'' [widget_doc] = Inr [1]"
  by (simp add: getConfidenceScore_def demo_env_def demo_embed_def widget_doc_def cosine_same_axis)


lemma demo_modelName: "modelName demo_env = ''gpt-4o''"
  by (simp add: modelName_def demo_env_def)


section \<open>C3: the documents of the answering stage\<close>

text \<open>
  C3, as amended. When the confidence gate passes, \<^verbatim>\<open>getResponse\<close> hands the chain the
  retriever, not the documents the gate scored. The chain asks the chat model to rewrite
  the question from the history, retrieves again with the rewritten question, and
  generates the answer from all the documents of that second retrieval, none filtered
  out; the result of \<^verbatim>\<open>getResponse\<close> is the result of that model call. The documents are
  those the gate scored whenever the rewritten question is the raw question.
\<close>

theorem answering_retrieves_again:
  assumes "sid = (case sessionIdArg of None \<Rightarrow> ''default_session'' | Some x \<Rightarrow> x)"
    and "sid \<notin> set object_prototype_keys"
    and "similarQuestionAsked E q (session_messages s sid) = Inr False"
    and "r q = Inr docs"
    and "docs \<noteq> []"
    and "confidenceScores E q docs = Inr scores"
    and "\<not> Max (set scores) < 7 / 10"
    and "llm_rephrase E (modelName E) (session_messages s sid) q = Inr q'"
    and "r q' = Inr docs'"
  shows "\<exists>s'. getResponse E q (Some r) sessionIdArg s =
           (llm_answer E (modelName E) docs' (session_messages s sid) q, s') \<and>
         calls s' = calls s @
           [RetrieverInvoke q,
            LlmContextualize (modelName E) (session_messages s sid) q,
            RetrieverInvoke q',
            LlmAnswer (modelName E) docs' (session_messages s sid) q] \<and>
         (q' = q \<longrightarrow> docs' = docs)"
proof -
  have arg: "getResponse E q (Some r) sessionIdArg s = getResponse E q (Some r) (Some sid) s"
    using assms(1) by (cases sessionIdArg) (simp_all add: getResponse_default)
  have ne: "scores \<noteq> []"
    using assms(5) confidenceScores_length [OF assms(6)] by auto
  then have gate: "\<not> maxBelow scores confidenceThreshold"
    using assms(7) by (simp add: maxBelow_iff confidenceThreshold_def)
  have same: "q' = q \<longrightarrow> docs' = docs"
    using assms(4,9) by auto
  show ?thesis
  proof (cases "llm_answer E (modelName E) docs' (session_messages s sid) q")
    case (Inl e)
    from getResponse_answer_fails [where docs = docs and docs' = docs',
        OF assms(2,3) _ assms(6) ne gate assms(8) _ Inl] assms(4,9) same
    show ?thesis unfolding arg Inl by auto
  next
    case (Inr a)
    from getResponse_answered [where docs = docs and docs' = docs',
        OF assms(2,3) _ assms(6) ne gate assms(8) _ Inr] assms(4,9) same
    show ?thesis unfolding arg Inr by auto
  qed
qed

lemma asked_state_simps:
  "session_messages asked_state ''s1'' =
     [\<lparr>role = ''human'', content = ''What is a widget?''\<rparr>,
      \<lparr>role = ''ai'', content = ''See the documentation.''\<rparr>]"
  "calls asked_state = []"
  "currentModel asked_state = Some ''gpt-4o''"
  by (simp_all add: session_messages_def asked_state_def)

lemma follow_up_passes_guard:
  "similarQuestionAsked demo_env ''How do they work?'' (session_messages asked_state ''s1'') = Inr False"
  by (simp add: asked_state_simps areQuestionsSimilar_def demo_env_def demo_embed_def
      cosine_orthogonal similarityThreshold_def)

lemma follow_up_scores:
  "confidenceScores demo_env ''How do they work?'' [deploy_doc] = Inr [1]"
  by (simp add: getConfidenceScore_def demo_env_def demo_embed_def deploy_doc_def
      cosineSimilarity_exact_eq)

lemma docs_differ: "widget_doc \<noteq> deploy_doc"
  by (simp add: widget_doc_def deploy_doc_def)

theorem answering_retrieves_again_witness:
  "\<exists>s'. getResponse demo_env ''How do they work?'' (Some demo_retriever) (Some ''s1'') asked_state =
          (Inr ''See the documentation.'', s') \<and>
        calls s' =
          [RetrieverInvoke ''How do they work?'',
           LlmContextualize ''gpt-4o'' (session_messages asked_state ''s1'') ''How do they work?'',
           RetrieverInvoke ''How do widgets work?'',
           LlmAnswer ''gpt-4o'' [widget_doc] (session_messages asked_state ''s1'') ''How do they work?'']"
proof -
  have r1: "demo_retriever ''How do they work?'' = Inr [deploy_doc]"
    by (simp add: demo_retriever_def)
  have r2: "demo_retriever ''How do widgets work?'' = Inr [widget_doc]"
    by (simp add: demo_retriever_def)
  have re: "llm_rephrase demo_env (modelName demo_env) (session_messages asked_state ''s1'')
      ''How do they work?'' = Inr ''How do widgets work?''"
    by (simp add: demo_env_def asked_state_simps)
  have an: "llm_answer demo_env (modelName demo_env) [widget_doc] (session_messages asked_state ''s1'')
      ''How do they work?'' = Inr ''See the documentation.''"
    by (simp add: demo_env_def)
  from answering_retrieves_again [where sid = "''s1''" and sessionIdArg = "Some ''s1''"
      and docs = "[deploy_doc]" and scores = "[1]" and r = demo_retriever,
      OF _ s1_not_inherited follow_up_passes_guard r1 _ follow_up_scores _ re r2]
  show ?thesis
    by (simp add: an [unfolded demo_modelName] demo_modelName asked_state_simps(2))
qed

text \<open>
  C3, as stated, fails for a follow-up question: in the session \<open>s1\<close>, which has asked about
  widgets, the question ``How do they work?'' retrieves the deployment document, which the
  gate scores 1; the chain rewrites the question, retrieves the widget document and
  answers from it.
\<close>

theorem answering_documents_differ_from_scored:
  "demo_retriever ''How do they work?'' = Inr [deploy_doc] \<and>
   confidenceScores demo_env ''How do they work?'' [deploy_doc] = Inr [1] \<and>
   calls (snd (getResponse demo_env ''How do they work?'' (Some demo_retriever) (Some ''s1'') asked_state)) =
     [RetrieverInvoke ''How do they work?'',
      LlmContextualize ''gpt-4o'' (session_messages asked_state ''s1'') ''How do they work?'',
      RetrieverInvoke ''How do widgets work?'',
      LlmAnswer ''gpt-4o'' [widget_doc] (session_messages asked_state ''s1'') ''How do they work?''] \<and>
   [widget_doc] \<noteq> [deploy_doc]"
proof -
  have r1: "demo_retriever ''How do they work?'' = Inr [deploy_doc]"
    by (simp add: demo_retriever_def)
  have r2: "demo_retriever ''How do widgets work?'' = Inr [widget_doc]"
    by (simp add: demo_retriever_def)
  have re: "llm_rephrase demo_env (modelName demo_env) (session_messages asked_state ''s1'')
      ''How do they work?'' = Inr ''How do widgets work?''"
    by (simp add: demo_env_def asked_state_simps)
  have an: "llm_answer demo_env (modelName demo_env) [widget_doc] (session_messages asked_state ''s1'')
      ''How do they work?'' = Inr ''See the documentation.''"
    by (simp add: demo_env_def)
  have gate: "\<not> maxBelow [1] confidenceThreshold"
    by (simp add: maxBelow_def confidenceThreshold_def)
  from getResponse_answered [where docs = "[deploy_doc]" and docs' = "[widget_doc]"
      and r = demo_retriever, OF s1_not_inherited follow_up_passes_guard r1 follow_up_scores _ gate re r2 an]
  have "calls (snd (getResponse demo_env ''How do they work?'' (Some demo_retriever) (Some ''s1'') asked_state)) =
     [RetrieverInvoke ''How do they work?'',
      LlmContextualize ''gpt-4o'' (session_messages asked_state ''s1'') ''How do they work?'',
      RetrieverInvoke ''How do widgets work?'',
      LlmAnswer ''gpt-4o'' [widget_doc] (session_messages asked_state ''s1'') ''How do they work?'']"
    by (auto simp add: demo_modelName asked_state_simps(2))
  with r1 follow_up_scores docs_differ show ?thesis
    by simp
qed

section \<open>C4: the history is updated on success only\<close>

text \<open>
  C4. On the answering path (the guard and the gate passed): if the call of the chat model
  that rewrites the question fails, or the call that answers fails, \<^verbatim>\<open>getResponse\<close> returns
  that error and the messages of every session are what they were; if both calls succeed,
  it returns the answer, and the history of the session has exactly two more messages, the
  human question and then the answer, the other sessions being unchanged.
\<close>

theorem history_appended_only_on_success:
  assumes "sid = (case sessionIdArg of None \<Rightarrow> ''default_session'' | Some x \<Rightarrow> x)"
    and "sid \<notin> set object_prototype_keys"
    and "similarQuestionAsked E q (session_messages s sid) = Inr False"
    and "r q = Inr docs"
    and "docs \<noteq> []"
    and "confidenceScores E q docs = Inr scores"
    and "\<not> Max (set scores) < 7 / 10"
  shows
    "(llm_rephrase E (modelName E) (session_messages s sid) q = Inl e \<longrightarrow>
        (\<exists>s'. getResponse E q (Some r) sessionIdArg s = (Inl e, s') \<and>
           session_messages s' = session_messages s)) \<and>
     (llm_rephrase E (modelName E) (session_messages s sid) q = Inr q' \<and> r q' = Inr docs' \<and>
      llm_answer E (modelName E) docs' (session_messages s sid) q = Inl e \<longrightarrow>
        (\<exists>s'. getResponse E q (Some r) sessionIdArg s = (Inl e, s') \<and>
           session_messages s' = session_messages s)) \<and>
     (llm_rephrase E (modelName E) (session_messages s sid) q = Inr q' \<and> r q' = Inr docs' \<and>
      llm_answer E (modelName E) docs' (session_messages s sid) q = Inr a \<longrightarrow>
        (\<exists>s'. getResponse E q (Some r) sessionIdArg s = (Inr a, s') \<and>
           session_messages s' = (session_messages s)
             (sid := session_messages s sid @
                [\<lparr>role = ''human'', content = q\<rparr>, \<lparr>role = ''ai'', content = a\<rparr>])))"
proof -
  have arg: "getResponse E q (Some r) sessionIdArg s = getResponse E q (Some r) (Some sid) s"
    using assms(1) by (cases sessionIdArg) (simp_all add: getResponse_default)
  have ne: "scores \<noteq> []"
    using assms(5) confidenceScores_length [OF assms(6)] by auto
  then have gate: "\<not> maxBelow scores confidenceThreshold"
    using assms(7) by (simp add: maxBelow_iff confidenceThreshold_def)
  have 1: "\<exists>s'. getResponse E q (Some r) (Some sid) s = (Inl e, s') \<and>
           session_messages s' = session_messages s"
    if "llm_rephrase E (modelName E) (session_messages s sid) q = Inl e"
    using getResponse_rephrase_fails [where docs = docs, OF assms(2,3) _ assms(6) ne gate that] assms(4)
    by auto
  have 2: "\<exists>s'. getResponse E q (Some r) (Some sid) s = (Inl e, s') \<and>
           session_messages s' = session_messages s"
    if "llm_rephrase E (modelName E) (session_messages s sid) q = Inr q'" "r q' = Inr docs'"
      "llm_answer E (modelName E) docs' (session_messages s sid) q = Inl e"
    using getResponse_answer_fails [where docs = docs and docs' = docs',
        OF assms(2,3) _ assms(6) ne gate that(1) _ that(3)] assms(4) that(2)
    by auto
  have 3: "\<exists>s'. getResponse E q (Some r) (Some sid) s = (Inr a, s') \<and>
           session_messages s' = (session_messages s)
             (sid := session_messages s sid @
                [\<lparr>role = ''human'', content = q\<rparr>, \<lparr>role = ''ai'', content = a\<rparr>])"
    if "llm_rephrase E (modelName E) (session_messages s sid) q = Inr q'" "r q' = Inr docs'"
      "llm_answer E (modelName E) docs' (session_messages s sid) q = Inr a"
    using getResponse_answered [where docs = docs and docs' = docs',
        OF assms(2,3) _ assms(6) ne gate that(1) _ that(3)] assms(4) that(2)
    by auto
  show ?thesis
    unfolding arg using 1 2 3 by blast
qed

lemma first_question_scores:
  "demo_retriever ''What is a widget?'' = Inr [widget_doc]"
  "llm_rephrase demo_env model [] input = Inr input"
  "llm_rephrase failing_env model [] input = Inr input"
  "llm_answer demo_env model docs history input = Inr ''See the documentation.''"
  "llm_answer failing_env model docs history input = Inl (Thrown ''rate limit'')"
  "modelName failing_env = ''gpt-4o''"
  "embedQuery failing_env = embedQuery demo_env"
  by (simp_all add: demo_retriever_def demo_env_def failing_env_def modelName_def)

lemma failing_scores_widget:
  "confidenceScores failing_env ''What is a widget?'' [widget_doc] = Inr [1]"
  by (simp add: getConfidenceScore_def failing_env_def demo_env_def demo_embed_def widget_doc_def
      cosine_same_axis)

theorem history_appended_only_on_success_witness:
  "(\<exists>s'. getResponse failing_env ''What is a widget?'' (Some demo_retriever) (Some ''s1'') initial_state =
          (Inl (Thrown ''rate limit''), s') \<and> session_messages s' ''s1'' = []) \<and>
   (\<exists>s'. getResponse demo_env ''What is a widget?'' (Some demo_retriever) (Some ''s1'') initial_state =
          (Inr ''See the documentation.'', s') \<and>
        session_messages s' ''s1'' =
          [\<lparr>role = ''human'', content = ''What is a widget?''\<rparr>,
           \<lparr>role = ''ai'', content = ''See the documentation.''\<rparr>])"
proof (intro conjI)
  have guard: "\<And>E. similarQuestionAsked E ''What is a widget?''
      (session_messages initial_state ''s1'') = Inr False"
    by simp
  from history_appended_only_on_success [where sid = "''s1''" and sessionIdArg = "Some ''s1''"
      and E = failing_env and r = demo_retriever and docs = "[widget_doc]" and scores = "[1]"
      and q' = "''What is a widget?''" and docs' = "[widget_doc]" and e = "Thrown ''rate limit''"
      and s = initial_state,
      OF _ s1_not_inherited guard first_question_scores(1) _ failing_scores_widget]
  show "\<exists>s'. getResponse failing_env ''What is a widget?'' (Some demo_retriever) (Some ''s1'') initial_state =
          (Inl (Thrown ''rate limit''), s') \<and> session_messages s' ''s1'' = []"
    by (auto simp add: first_question_scores)
  from history_appended_only_on_success [where sid = "''s1''" and sessionIdArg = "Some ''s1''"
      and E = demo_env and r = demo_retriever and docs = "[widget_doc]" and scores = "[1]"
      and q' = "''What is a widget?''" and docs' = "[widget_doc]" and a = "''See the documentation.''"
      and s = initial_state,
      OF _ s1_not_inherited guard first_question_scores(1) _ demo_scores_widget]
  show "\<exists>s'. getResponse demo_env ''What is a widget?'' (Some demo_retriever) (Some ''s1'') initial_state =
          (Inr ''See the documentation.'', s') \<and>
        session_messages s' ''s1'' =
          [\<lparr>role = ''human'', content = ''What is a widget?''\<rparr>,
           \<lparr>role = ''ai'', content = ''See the documentation.''\<rparr>]"
    by (auto simp add: first_question_scores)
qed


section \<open>C9: calls without a session identifier share one history\<close>

text \<open>
  C9. A call of \<^verbatim>\<open>getResponse\<close> without a session identifier is the call with the
  identifier \<open>default_session\<close>. So the guard of such a call examines the history stored
  under \<open>default_session\<close>, whoever put the messages there: when that history holds a
  similar human question the call returns the advisory message; and a call without an
  identifier that is answered appends its question and its answer to that same history.
\<close>

theorem default_session_is_shared:
  "getResponse E q r None s = getResponse E q r (Some ''default_session'') s \<and>
   (similarQuestionAsked E q (session_messages s ''default_session'') = Inr True \<longrightarrow>
      fst (getResponse E q r None s) = Inr DUPLICATE_QUESTION_MESSAGE) \<and>
   (similarQuestionAsked E q (session_messages s ''default_session'') = Inr False \<and>
    r = Some rf \<and> rf q = Inr docs \<and> docs \<noteq> [] \<and> confidenceScores E q docs = Inr scores \<and>
    \<not> Max (set scores) < 7 / 10 \<and>
    llm_rephrase E (modelName E) (session_messages s ''default_session'') q = Inr q' \<and>
    rf q' = Inr docs' \<and>
    llm_answer E (modelName E) docs' (session_messages s ''default_session'') q = Inr a \<longrightarrow>
      session_messages (snd (getResponse E q r None s)) ''default_session'' =
        session_messages s ''default_session'' @
          [\<lparr>role = ''human'', content = q\<rparr>, \<lparr>role = ''ai'', content = a\<rparr>])"
proof (intro conjI impI)
  show d: "getResponse E q r None s = getResponse E q r (Some ''default_session'') s"
    by (rule getResponse_default)
  show "fst (getResponse E q r None s) = Inr DUPLICATE_QUESTION_MESSAGE"
    if "similarQuestionAsked E q (session_messages s ''default_session'') = Inr True"
    unfolding d using getResponse_duplicate [OF default_session_not_inherited that] by simp
  show "session_messages (snd (getResponse E q r None s)) ''default_session'' =
        session_messages s ''default_session'' @
          [\<lparr>role = ''human'', content = q\<rparr>, \<lparr>role = ''ai'', content = a\<rparr>]"
    if h: "similarQuestionAsked E q (session_messages s ''default_session'') = Inr False \<and>
      r = Some rf \<and> rf q = Inr docs \<and> docs \<noteq> [] \<and> confidenceScores E q docs = Inr scores \<and>
      \<not> Max (set scores) < 7 / 10 \<and>
      llm_rephrase E (modelName E) (session_messages s ''default_session'') q = Inr q' \<and>
      rf q' = Inr docs' \<and>
      llm_answer E (modelName E) docs' (session_messages s ''default_session'') q = Inr a"
  proof -
    have ne: "scores \<noteq> []"
      using h confidenceScores_length [of E q docs scores] by auto
    then have gate: "\<not> maxBelow scores confidenceThreshold"
      using h by (simp add: maxBelow_iff confidenceThreshold_def)
    from h have a: "similarQuestionAsked E q (session_messages s ''default_session'') = Inr False"
      and b: "confidenceScores E q docs = Inr scores"
      and c: "llm_rephrase E (modelName E) (session_messages s ''default_session'') q = Inr q'"
      and e: "llm_answer E (modelName E) docs' (session_messages s ''default_session'') q = Inr a"
      by simp_all
    from getResponse_answered [where docs = docs and docs' = docs' and r = rf,
        OF default_session_not_inherited a _ b ne gate c _ e] h
    show ?thesis unfolding d by auto
  qed
qed

theorem default_session_is_shared_witness:
  "fst (getResponse demo_env ''What is a widget?'' (Some demo_retriever) None initial_state) =
     Inr ''See the documentation.'' \<and>
   session_messages
     (snd (getResponse demo_env ''What is a widget?'' (Some demo_retriever) None initial_state))
     ''default_session'' =
     [\<lparr>role = ''human'', content = ''What is a widget?''\<rparr>,
      \<lparr>role = ''ai'', content = ''See the documentation.''\<rparr>] \<and>
   fst (getResponse demo_env ''What is a widget?'' (Some demo_retriever) None
     (snd (getResponse demo_env ''What is a widget?'' (Some demo_retriever) None initial_state))) =
     Inr DUPLICATE_QUESTION_MESSAGE"
proof -
  define s1 where
    "s1 = snd (getResponse demo_env ''What is a widget?'' (Some demo_retriever) None initial_state)"
  have gate: "\<not> maxBelow [1] confidenceThreshold"
    by (simp add: maxBelow_def confidenceThreshold_def)
  have guard: "similarQuestionAsked demo_env ''What is a widget?''
      (session_messages initial_state ''default_session'') = Inr False"
    by simp
  have first: "fst (getResponse demo_env ''What is a widget?'' (Some demo_retriever) None initial_state) =
     Inr ''See the documentation.''"
    using getResponse_answered [where E = demo_env and r = demo_retriever and docs = "[widget_doc]"
        and docs' = "[widget_doc]" and s = initial_state and q' = "''What is a widget?''"
        and a = "''See the documentation.''",
        OF default_session_not_inherited guard first_question_scores(1) demo_scores_widget _ gate]
    by (auto simp add: first_question_scores getResponse_default)
  have msgs: "session_messages s1 ''default_session'' =
     [\<lparr>role = ''human'', content = ''What is a widget?''\<rparr>,
      \<lparr>role = ''ai'', content = ''See the documentation.''\<rparr>]"
    unfolding s1_def
    using default_session_is_shared [where E = demo_env and r = "Some demo_retriever"
        and rf = demo_retriever and docs = "[widget_doc]" and scores = "[1]"
        and docs' = "[widget_doc]" and s = initial_state and q = "''What is a widget?''"
        and q' = "''What is a widget?''" and a = "''See the documentation.''",
        THEN conjunct2, THEN conjunct2]
    by (simp add: first_question_scores demo_scores_widget del: confidenceScores.simps)
  have "similarQuestionAsked demo_env ''What is a widget?''
      (session_messages s1 ''default_session'') = Inr True"
    by (simp add: msgs areQuestionsSimilar_def demo_env_def demo_embed_def cosine_same_axis
        similarityThreshold_def)
  with default_session_is_shared [where E = demo_env and r = "Some demo_retriever" and s = s1
      and q = "''What is a widget?''"]
  have "fst (getResponse demo_env ''What is a widget?'' (Some demo_retriever) None s1) =
     Inr DUPLICATE_QUESTION_MESSAGE"
    by blast
  with first msgs show ?thesis
    by (simp add: s1_def)
qed

section \<open>C10: the current model before the first chain set-up\<close>



end
